theory Spec2Isabelle
  imports Main "HOL-Library.Word"
begin

section \<open>The MiLight RGBW bridge client of milightrgbw.py\<close>

text \<open>
  The source is a Python 2 module: class \<open>MiLightRGBW\<close> holds a table of command
  names, builds three-byte packets with \<open>struct.pack\<close>, and sends them over a UDP
  socket, sleeping after a send. The embedding keeps the names of the source.
  Python integers are \<open>int\<close>, a packet (a Python 2 byte string) is a list of
  8-bit words, an exception is a value of \<open>error\<close>, and the effects of a method
  (log line, datagram, sleep) are events appended to the trace of the state.
\<close>

subsection \<open>Python values and exceptions\<close>

type_synonym byte = "8 word"

datatype error =
    KeyError string
  | ValueError string
  | TypeError
  | StructError
  | SocketError

text \<open>
  The argument \<open>value\<close> of \<open>build_command\<close> is dynamically typed. The callers in
  the file pass an integer (the default 0) or a string (a piece of
  \<open>command.split(':')\<close>); \<open>PyNone\<close> stands for an object without an integer
  conversion.
\<close>

datatype pyval = PyInt int | PyStr string | PyNone

subsection \<open>The built-in \<open>int()\<close>\<close>

text \<open>
  \<open>int(s)\<close> of a string, base 10: white space is stripped at both ends, one
  sign may lead, and the rest must be one or more digits; anything else raises
  ValueError. \<open>int(i)\<close> of an integer is \<open>i\<close>; \<open>int(None)\<close> raises TypeError.
\<close>

definition is_space :: "char \<Rightarrow> bool" where
  "is_space c = (of_char c = (32::nat) \<or> (9 \<le> (of_char c :: nat) \<and> (of_char c :: nat) \<le> 13))"

definition is_digit :: "char \<Rightarrow> bool" where
  "is_digit c = (48 \<le> (of_char c :: nat) \<and> (of_char c :: nat) \<le> 57)"

definition digit_val :: "char \<Rightarrow> int" where
  "digit_val c = of_char c - 48"

definition digits_val :: "string \<Rightarrow> int" where
  "digits_val ds = foldl (\<lambda>a c. 10 * a + digit_val c) 0 ds"

definition strip :: "string \<Rightarrow> string" where
  "strip s = rev (dropWhile is_space (rev (dropWhile is_space s)))"

definition int_of_str :: "string \<Rightarrow> error + int" where
  "int_of_str s =
     (let t = strip s;
          signed = (t \<noteq> [] \<and> (hd t = CHR ''-'' \<or> hd t = CHR ''+''));
          ds = (if signed then tl t else t)
      in if ds \<noteq> [] \<and> list_all is_digit ds
         then Inr (if signed \<and> hd t = CHR ''-'' then - digits_val ds else digits_val ds)
         else Inl (ValueError s))"

fun py_int :: "pyval \<Rightarrow> error + int" where
  "py_int (PyInt i) = Inr i"
| "py_int (PyStr s) = int_of_str s"
| "py_int PyNone = Inl TypeError"

subsection \<open>\<open>struct.pack("!BBB", a, b, c)\<close>\<close>

text \<open>
  Format code \<open>B\<close> is an unsigned byte. Since Python 2.7 \<open>struct.pack\<close> raises
  \<open>struct.error\<close> for an argument outside 0..255 (the overflow masking of
  earlier versions is gone); byte order does not matter for single bytes.
\<close>

definition pack_B :: "int \<Rightarrow> error + byte" where
  "pack_B x = (if 0 \<le> x \<and> x \<le> 255 then Inr (word_of_int x) else Inl StructError)"

definition struct_pack_BBB :: "int \<Rightarrow> int \<Rightarrow> int \<Rightarrow> error + byte list" where
  "struct_pack_BBB a b c =
     (case pack_B a of
        Inl e \<Rightarrow> Inl e
      | Inr x \<Rightarrow>
          (case pack_B b of
             Inl e \<Rightarrow> Inl e
           | Inr y \<Rightarrow>
               (case pack_B c of
                  Inl e \<Rightarrow> Inl e
                | Inr z \<Rightarrow> Inr [x, y, z])))"

subsection \<open>The client and its surroundings\<close>

text \<open>
  What a method can do to the outside: write a log line, hand a datagram to the
  socket, sleep. \<open>Sleep\<close> counts milliseconds (\<open>time.sleep(0.1)\<close> is \<open>Sleep 100\<close>).
\<close>

datatype event = Log string | Sendto "byte list" string int | Sleep nat

text \<open>
  The attributes a method reads through \<open>self\<close> (the class attributes
  \<open>commands\<close> and \<open>suffix\<close> among them), the level of the logger, what the
  network will do, and what has happened so far. \<open>sendto_raises\<close> lists, for the
  coming calls of \<open>sock.sendto\<close>, whether the call raises \<open>socket.error\<close>; past
  its end no call raises.
\<close>

record state =
  bridge_address :: string
  bridge_port :: int
  commands :: "(string \<times> int) list"
  suffix :: int
  log_level :: int
  sendto_raises :: "bool list"
  trace :: "event list"

definition MiLightRGBW_suffix :: int where
  "MiLightRGBW_suffix = 85"

definition brightness_min :: int where
  "brightness_min = 2"

definition brightness_max :: int where
  "brightness_max = 27"

definition MiLightRGBW_commands :: "(string \<times> int) list" where
  "MiLightRGBW_commands =
     [(''all_off'', 65),
      (''all_on'', 66),
      (''disco_slower'', 67),
      (''disco_faster'', 68),
      (''group1_on'', 69),
      (''group1_off'', 70),
      (''group2_on'', 71),
      (''group2_off'', 72),
      (''group3_on'', 73),
      (''group3_off'', 74),
      (''group4_on'', 75),
      (''group4_off'', 76),
      (''disco'', 77),
      (''all_white'', 194),
      (''group1_white'', 197),
      (''group2_white'', 199),
      (''group3_white'', 201),
      (''group4_white'', 203),
      (''brightness'', 78),
      (''rgb'', 64)]"

text \<open>
  \<open>__init__\<close>: stores the endpoint, sets the logger's level and opens the socket
  (taken to succeed). The last argument is the behaviour of the network.
\<close>

definition init :: "string \<Rightarrow> int \<Rightarrow> int \<Rightarrow> bool list \<Rightarrow> state" where
  "init address port loglevel net =
     \<lparr> bridge_address = address,
       bridge_port = port,
       commands = MiLightRGBW_commands,
       suffix = MiLightRGBW_suffix,
       log_level = loglevel,
       sendto_raises = net,
       trace = [] \<rparr>"

text \<open>The defaults of \<open>__init__\<close>; \<open>logging.WARNING\<close> is 30.\<close>

definition init_default :: state where
  "init_default = init ''255.255.255.255'' 8899 30 []"

text \<open>The class attributes are the ones the class body assigns.\<close>

definition class_attrs_intact :: "state \<Rightarrow> bool" where
  "class_attrs_intact s = (commands s = MiLightRGBW_commands \<and> suffix s = MiLightRGBW_suffix)"

subsection \<open>\<open>build_command\<close>\<close>

text \<open>
  Python evaluates the arguments of \<open>struct.pack\<close> from left to right:
  \<open>self.commands[command]\<close> (KeyError), then \<open>int(value)\<close>, then
  \<open>self.suffix\<close>, and only then packs.
\<close>

definition build_command :: "string \<Rightarrow> pyval \<Rightarrow> state \<Rightarrow> (error + byte list) \<times> state" where
  "build_command command v s =
     (case map_of (commands s) command of
        None \<Rightarrow> (Inl (KeyError command), s)
      | Some opcode \<Rightarrow>
          (case py_int v of
             Inl e \<Rightarrow> (Inl e, s)
           | Inr n \<Rightarrow> (struct_pack_BBB opcode n (suffix s), s)))"

subsection \<open>\<open>send_command\<close>\<close>

text \<open>
  \<open>"{0:x}".format(n)\<close>: lower-case hexadecimal without padding, and
  \<open>sep.join(...)\<close>.
\<close>

definition hex_digit :: "nat \<Rightarrow> char" where
  "hex_digit d = ''0123456789abcdef'' ! d"

fun hex :: "nat \<Rightarrow> string" where
  "hex n = (if n < 16 then [hex_digit n] else hex (n div 16) @ [hex_digit (n mod 16)])"

declare hex.simps [simp del]

fun join :: "string \<Rightarrow> string list \<Rightarrow> string" where
  "join sep [] = []"
| "join sep [x] = x"
| "join sep (x # y # ys) = x @ sep @ join sep (y # ys)"

text \<open>
  \<open>self.log.debug(msg)\<close> writes the line when the logger is enabled for DEBUG
  (10): its level is at most 10, and not 0, which defers to the root logger's
  WARNING. The message itself is always computed.
\<close>

definition debug_enabled :: "state \<Rightarrow> bool" where
  "debug_enabled s = (log_level s \<noteq> 0 \<and> log_level s \<le> 10)"

definition log_debug :: "string \<Rightarrow> state \<Rightarrow> state" where
  "log_debug msg s = (if debug_enabled s then s\<lparr>trace := trace s @ [Log msg]\<rparr> else s)"

text \<open>
  \<open>self.sock.sendto(data, (address, port))\<close>: the head of \<open>sendto_raises\<close>
  decides whether this call raises; if not, the datagram is on its way.
\<close>

definition sock_sendto :: "byte list \<Rightarrow> string \<Rightarrow> int \<Rightarrow> state \<Rightarrow> (error + unit) \<times> state" where
  "sock_sendto data address port s =
     (case sendto_raises s of
        [] \<Rightarrow> (Inr (), s\<lparr>trace := trace s @ [Sendto data address port]\<rparr>)
      | raises # rest \<Rightarrow>
          if raises then (Inl SocketError, s\<lparr>sendto_raises := rest\<rparr>)
          else (Inr (), s\<lparr>sendto_raises := rest,
                           trace := trace s @ [Sendto data address port]\<rparr>))"

definition time_sleep :: "nat \<Rightarrow> state \<Rightarrow> state" where
  "time_sleep ms s = s\<lparr>trace := trace s @ [Sleep ms]\<rparr>"

text \<open>The message of the log line: the bytes in hexadecimal, joined by colons.\<close>

definition sending_line :: "byte list \<Rightarrow> string" where
  "sending_line cmd = ''Sending: '' @ join '':'' (map (\<lambda>c. hex (unat c)) cmd)"

text \<open>
  The three statements of \<open>send_command\<close>, in order; an exception of
  \<open>sendto\<close> leaves the method before \<open>time.sleep(0.1)\<close>.
\<close>

definition send_command :: "byte list \<Rightarrow> state \<Rightarrow> (error + unit) \<times> state" where
  "send_command cmd s =
     (let s1 = log_debug (sending_line cmd) s
      in case sock_sendto cmd (bridge_address s1) (bridge_port s1) s1 of
           (Inl e, s2) \<Rightarrow> (Inl e, s2)
         | (Inr u, s2) \<Rightarrow> (Inr (), time_sleep 100 s2))"

subsection \<open>\<open>simple\<close>\<close>

text \<open>
  \<open>self.send_command(self.build_command(command, value))\<close>: the argument is
  evaluated first, and an exception there means \<open>send_command\<close> is never called.
\<close>

definition simple :: "string \<Rightarrow> pyval \<Rightarrow> state \<Rightarrow> (error + unit) \<times> state" where
  "simple command v s =
     (case build_command command v s of
        (Inl e, s1) \<Rightarrow> (Inl e, s1)
      | (Inr cmd, s1) \<Rightarrow> send_command cmd s1)"

text \<open>
  Calls of \<open>simple\<close> one after the other, as the loop of
  \<open>TestMiLightRGBW.test\<close> makes them; the first exception ends the sequence.
\<close>

fun simple_seq :: "(string \<times> pyval) list \<Rightarrow> state \<Rightarrow> (error + unit) \<times> state" where
  "simple_seq [] s = (Inr (), s)"
| "simple_seq ((command, v) # rest) s =
     (case simple command v s of
        (Inl e, s1) \<Rightarrow> (Inl e, s1)
      | (Inr u, s1) \<Rightarrow> simple_seq rest s1)"

subsection \<open>\<open>TestMiLightRGBW.test\<close>\<close>

text \<open>\<open>s.split(':')\<close>: the pieces between the colons, at least one.\<close>

fun split_colon :: "string \<Rightarrow> string list" where
  "split_colon [] = [[]]"
| "split_colon (c # cs) =
     (if c = CHR '':'' then [] # split_colon cs
      else (case split_colon cs of
              [] \<Rightarrow> [[c]]
            | piece # pieces \<Rightarrow> (c # piece) # pieces))"

text \<open>
  The loop of \<open>test\<close> over a list of command strings (a single string is
  wrapped into a list of one first). The tester's logger has
  the level of the bridge's (\<open>TestMiLightRGBW.__init__\<close> sets both from one
  argument). A command with a colon passes the piece after the first colon on
  as a string; one without passes no value, and \<open>simple\<close> takes its default 0.
\<close>

fun test :: "string list \<Rightarrow> state \<Rightarrow> (error + unit) \<times> state" where
  "test [] s = (Inr (), s)"
| "test (command # rest) s =
     (let s1 = log_debug (''Command: '' @ command) s;
          bits = split_colon command
      in case (if length bits > 1 then simple (bits ! 0) (PyStr (bits ! 1)) s1
               else simple command (PyInt 0) s1) of
           (Inl e, s2) \<Rightarrow> (Inl e, s2)
         | (Inr u, s2) \<Rightarrow> test rest s2)"

subsection \<open>Vocabulary of the specification\<close>

text \<open>
  The specification's \<open>sendSimple\<close> composes build and send: the sender runs
  on the packet the builder returns, in the state the builder leaves, and an
  error of the builder is the error of the whole.
\<close>

definition and_then ::
  "(state \<Rightarrow> (error + 'a) \<times> state) \<Rightarrow> ('a \<Rightarrow> state \<Rightarrow> (error + 'b) \<times> state)
     \<Rightarrow> state \<Rightarrow> (error + 'b) \<times> state" where
  "and_then f g s =
     (let r = f s
      in if isl (fst r) then (Inl (projl (fst r)), snd r) else g (projr (fst r)) (snd r))"

definition sendSimple_spec :: "string \<Rightarrow> pyval \<Rightarrow> state \<Rightarrow> (error + unit) \<times> state" where
  "sendSimple_spec commandName v = and_then (build_command commandName v) send_command"

text \<open>
  The source has no decoder. The round trip is stated with the inverse of the
  packer (\<open>struct.unpack("!BBB", p)\<close>) and the reverse lookup in the table.
\<close>

definition struct_unpack_BBB :: "byte list \<Rightarrow> (int \<times> int \<times> int) option" where
  "struct_unpack_BBB p =
     (case p of [x, y, z] \<Rightarrow> Some (uint x, uint y, uint z) | _ \<Rightarrow> None)"

fun name_of_opcode :: "(string \<times> int) list \<Rightarrow> int \<Rightarrow> string option" where
  "name_of_opcode [] opcode = None"
| "name_of_opcode ((name, c) # rest) opcode =
     (if c = opcode then Some name else name_of_opcode rest opcode)"

text \<open>The datagrams and sleeps of a trace, without the log lines.\<close>

fun is_Log :: "event \<Rightarrow> bool" where
  "is_Log (Log msg) = True"
| "is_Log (Sendto data address port) = False"
| "is_Log (Sleep ms) = False"

fun is_Sendto :: "event \<Rightarrow> bool" where
  "is_Sendto (Log msg) = False"
| "is_Sendto (Sendto data address port) = True"
| "is_Sendto (Sleep ms) = False"

definition io_events :: "event list \<Rightarrow> event list" where
  "io_events tr = filter (\<lambda>e. \<not> is_Log e) tr"

text \<open>Whether the next call of \<open>sock.sendto\<close> raises.\<close>

definition sendto_will_raise :: "state \<Rightarrow> bool" where
  "sendto_will_raise s = (sendto_raises s \<noteq> [] \<and> hd (sendto_raises s))"

text \<open>
  What the specification calls immutable: the command table, the terminator
  byte and the endpoint.
\<close>

definition client_config :: "state \<Rightarrow> (string \<times> int) list \<times> int \<times> string \<times> int" where
  "client_config s = (commands s, suffix s, bridge_address s, bridge_port s)"

section \<open>Facts\<close>

subsection \<open>Facts about the table and the packer\<close>

text \<open>
  Every opcode of the table fits a byte, so the packer can only reject the value.
\<close>

lemma commands_opcode_range:
  assumes "map_of MiLightRGBW_commands name = Some opcode"
  shows "0 \<le> opcode \<and> opcode \<le> 255"
proof -
  from assms have "(name, opcode) \<in> set MiLightRGBW_commands"
    by (rule map_of_SomeD)
  then show ?thesis
    unfolding MiLightRGBW_commands_def by auto
qed

lemma struct_pack_BBB_in_range:
  assumes "0 \<le> a" "a \<le> 255" "0 \<le> b" "b \<le> 255" "0 \<le> c" "c \<le> 255"
  shows "struct_pack_BBB a b c = Inr [word_of_int a, word_of_int b, word_of_int c]"
  using assms by (simp add: struct_pack_BBB_def pack_B_def)

lemma uint_byte_of_int:
  assumes "0 \<le> x" "x \<le> 255"
  shows "uint (word_of_int x :: byte) = x"
  using assms by (simp add: uint_word_of_int)

lemma build_command_in_range:
  assumes "class_attrs_intact s"
    and "map_of (commands s) name = Some opcode"
    and "py_int v = Inr n" and "0 \<le> n" and "n \<le> 255"
  shows "build_command name v s =
           (Inr [word_of_int opcode, word_of_int n, word_of_int 85], s)"
proof -
  from assms(1) have tab: "commands s = MiLightRGBW_commands" and suf: "suffix s = 85"
    by (simp_all add: class_attrs_intact_def MiLightRGBW_suffix_def)
  from assms(2) tab have "0 \<le> opcode \<and> opcode \<le> 255"
    by (simp add: commands_opcode_range)
  then show ?thesis
    using assms(2-5) suf by (simp add: build_command_def struct_pack_BBB_in_range)
qed

lemma build_command_out_of_range:
  assumes "class_attrs_intact s"
    and "map_of (commands s) name = Some opcode"
    and "py_int v = Inr n" and "n < 0 \<or> 255 < n"
  shows "build_command name v s = (Inl StructError, s)"
proof -
  from assms(1,2) have "0 \<le> opcode \<and> opcode \<le> 255"
    by (simp add: class_attrs_intact_def commands_opcode_range)
  then show ?thesis
    using assms(2-4) by (auto simp add: build_command_def struct_pack_BBB_def pack_B_def)
qed

lemma class_attrs_intact_init: "class_attrs_intact (init address port loglevel net)"
  by (simp add: class_attrs_intact_def init_def)

lemma commands_init: "commands (init address port loglevel net) = MiLightRGBW_commands"
  by (simp add: init_def)

lemma commands_init_default: "commands init_default = MiLightRGBW_commands"
  by (simp add: init_default_def commands_init)

lemma suffix_init_default: "suffix init_default = 85"
  by (simp add: init_default_def init_def MiLightRGBW_suffix_def)

lemma class_attrs_intact_init_default: "class_attrs_intact init_default"
  by (simp add: init_default_def class_attrs_intact_init)

lemma build_command_init_default:
  "build_command name v init_default =
     (case map_of MiLightRGBW_commands name of
        None \<Rightarrow> (Inl (KeyError name), init_default)
      | Some opcode \<Rightarrow>
          (case py_int v of
             Inl e \<Rightarrow> (Inl e, init_default)
           | Inr n \<Rightarrow> (struct_pack_BBB opcode n 85, init_default)))"
  by (simp add: build_command_def commands_init_default suffix_init_default
      split: option.split sum.split)

lemma lookup_rgb: "map_of MiLightRGBW_commands ''rgb'' = Some 64"
  by (simp add: MiLightRGBW_commands_def)

lemma lookup_brightness: "map_of MiLightRGBW_commands ''brightness'' = Some 78"
  by (simp add: MiLightRGBW_commands_def)

lemma lookup_all_on: "map_of MiLightRGBW_commands ''all_on'' = Some 66"
  by (simp add: MiLightRGBW_commands_def)

lemma py_int_not_KeyError: "py_int v \<noteq> Inl (KeyError k)"
  by (cases v) (simp_all add: int_of_str_def Let_def)

lemma struct_pack_BBB_not_KeyError: "struct_pack_BBB a b c \<noteq> Inl (KeyError k)"
  by (simp add: struct_pack_BBB_def pack_B_def)

subsection \<open>Facts about sending\<close>

text \<open>
  \<open>build_command\<close> returns its state; \<open>send_command\<close> has two outcomes,
  decided by the network; neither touches the table, the terminator or the
  endpoint.
\<close>

lemma snd_build_command: "snd (build_command c v s) = s"
  by (simp add: build_command_def split: option.split sum.split)

lemma build_command_pair: "build_command c v s = (fst (build_command c v s), s)"
  by (simp add: build_command_def split: option.split sum.split)

lemma fst_build_command_cong:
  assumes "commands s' = commands s" and "suffix s' = suffix s"
  shows "fst (build_command c v s') = fst (build_command c v s)"
  using assms by (simp add: build_command_def split: option.split sum.split)

lemma send_command_ok:
  assumes "\<not> sendto_will_raise s"
  shows "send_command cmd s =
           (Inr (), s\<lparr>sendto_raises := tl (sendto_raises s),
                        trace := trace s @ (if debug_enabled s then [Log (sending_line cmd)] else [])
                                   @ [Sendto cmd (bridge_address s) (bridge_port s), Sleep 100]\<rparr>)"
  using assms
  by (cases "sendto_raises s")
     (simp_all add: send_command_def sock_sendto_def time_sleep_def log_debug_def
        sendto_will_raise_def debug_enabled_def Let_def)

lemma send_command_raises:
  assumes "sendto_will_raise s"
  shows "send_command cmd s =
           (Inl SocketError,
            s\<lparr>sendto_raises := tl (sendto_raises s),
               trace := trace s @ (if debug_enabled s then [Log (sending_line cmd)] else [])\<rparr>)"
  using assms
  by (cases "sendto_raises s")
     (simp_all add: send_command_def sock_sendto_def time_sleep_def log_debug_def
        sendto_will_raise_def debug_enabled_def Let_def)

lemma client_config_send_command: "client_config (snd (send_command cmd s)) = client_config s"
  by (cases "sendto_will_raise s")
     (simp_all add: send_command_ok send_command_raises client_config_def)

lemma simple_eq:
  "simple c v s =
     (case fst (build_command c v s) of Inl e \<Rightarrow> (Inl e, s) | Inr cmd \<Rightarrow> send_command cmd s)"
proof -
  obtain r where r: "build_command c v s = (r, s)"
    using build_command_pair by blast
  then show ?thesis
    by (simp add: simple_def split: sum.split)
qed

lemma client_config_simple: "client_config (snd (simple c v s)) = client_config s"
  by (simp add: simple_eq client_config_send_command split: sum.split)

lemma simple_seq_ok:
  assumes "map (\<lambda>(c, v). fst (build_command c v s)) cs = map Inr ps"
    and "True \<notin> set (take (length cs) (sendto_raises s))"
  shows "\<exists>s'. simple_seq cs s = (Inr (), s')
           \<and> client_config s' = client_config s
           \<and> io_events (trace s') = io_events (trace s)
                @ concat (map (\<lambda>p. [Sendto p (bridge_address s) (bridge_port s), Sleep 100]) ps)"
  using assms
proof (induction cs arbitrary: s ps)
  case Nil
  then show ?case by simp
next
  case (Cons cv rest)
  obtain c v where cv: "cv = (c, v)"
    by (cases cv)
  from Cons.prems(1) cv obtain p ps' where ps: "ps = p # ps'"
    and p: "fst (build_command c v s) = Inr p"
    and rest: "map (\<lambda>(c, v). fst (build_command c v s)) rest = map Inr ps'"
    by (cases ps) auto
  from Cons.prems(2) have ok: "\<not> sendto_will_raise s"
    by (cases "sendto_raises s") (auto simp add: sendto_will_raise_def)
  define s1 where "s1 = snd (send_command p s)"
  have step: "simple c v s = (Inr (), s1)"
    using p ok by (simp add: simple_eq send_command_ok s1_def)
  have conf: "client_config s1 = client_config s"
    by (simp add: s1_def client_config_send_command)
  then have same: "commands s1 = commands s" "suffix s1 = suffix s"
    "bridge_address s1 = bridge_address s" "bridge_port s1 = bridge_port s"
    by (simp_all add: client_config_def)
  have tr1: "io_events (trace s1) = io_events (trace s)
      @ [Sendto p (bridge_address s) (bridge_port s), Sleep 100]"
    using ok by (simp add: s1_def send_command_ok io_events_def)
  have net1: "sendto_raises s1 = tl (sendto_raises s)"
    using ok by (simp add: s1_def send_command_ok)
  have rest1: "map (\<lambda>(c, v). fst (build_command c v s1)) rest = map Inr ps'"
    using rest same by (simp add: fst_build_command_cong [of s1 s])
  have net_ok: "True \<notin> set (take (length rest) (sendto_raises s1))"
    using Cons.prems(2) net1 by (cases "sendto_raises s") auto
  from Cons.IH [OF rest1 net_ok] obtain s' where
    seq: "simple_seq rest s1 = (Inr (), s')"
    and conf': "client_config s' = client_config s1"
    and tr': "io_events (trace s') = io_events (trace s1)
        @ concat (map (\<lambda>p. [Sendto p (bridge_address s1) (bridge_port s1), Sleep 100]) ps')"
    by blast
  have "simple_seq (cv # rest) s = (Inr (), s')"
    using step seq cv by simp
  moreover have "client_config s' = client_config s"
    using conf conf' by simp
  moreover have "io_events (trace s') = io_events (trace s)
      @ concat (map (\<lambda>p. [Sendto p (bridge_address s) (bridge_port s), Sleep 100]) ps)"
    using tr' tr1 same ps by simp
  ultimately show ?case
    by blast
qed

lemma count_Sendto_io_events:
  "length (filter is_Sendto (io_events tr)) = length (filter is_Sendto tr)"
proof (induction tr)
  case Nil
  then show ?case by (simp add: io_events_def)
next
  case (Cons e tr)
  then show ?case by (cases e) (simp_all add: io_events_def)
qed

lemma count_Sendto_paced:
  "length (filter is_Sendto (concat (map (\<lambda>p. [Sendto p a b, Sleep ms]) ps))) = length ps"
  by (induction ps) simp_all

lemma init_fields:
  "bridge_address (init a p l n) = a" "bridge_port (init a p l n) = p"
  "commands (init a p l n) = MiLightRGBW_commands" "suffix (init a p l n) = 85"
  "log_level (init a p l n) = l" "sendto_raises (init a p l n) = n" "trace (init a p l n) = []"
  by (simp_all add: init_def MiLightRGBW_suffix_def)

lemma client_config_simple_seq: "client_config (snd (simple_seq cs s)) = client_config s"
proof (induction cs arbitrary: s)
  case Nil
  then show ?case by simp
next
  case (Cons cv rest)
  obtain c v where cv: "cv = (c, v)"
    by (cases cv)
  obtain r s1 where r: "simple c v s = (r, s1)"
    by (cases "simple c v s")
  then have s1: "client_config s1 = client_config s"
    using client_config_simple [of c v s] by simp
  show ?case
  proof (cases r)
    case (Inl e)
    then show ?thesis using cv r s1 by simp
  next
    case (Inr u)
    then show ?thesis using cv r s1 Cons.IH [of s1] by simp
  qed
qed

subsection \<open>Facts about decoding and about \<open>int()\<close>\<close>

text \<open>
  The keys of the dict literal are distinct, so the association list is the
  dict; the opcodes are distinct too, which makes the reverse lookup an inverse.
\<close>

lemma name_of_opcode_inverse:
  assumes "distinct (map snd xs)" and "(name, opcode) \<in> set xs"
  shows "name_of_opcode xs opcode = Some name"
  using assms
proof (induction xs)
  case Nil
  then show ?case by simp
next
  case (Cons x xs)
  obtain n c where x: "x = (n, c)"
    by (cases x)
  show ?case
  proof (cases "c = opcode")
    case True
    with Cons.prems x have "n = name"
      by (auto simp add: image_iff)
    with True x show ?thesis by simp
  next
    case False
    with Cons x show ?thesis by auto
  qed
qed

lemma distinct_opcodes: "distinct (map snd MiLightRGBW_commands)"
  by (simp add: MiLightRGBW_commands_def)

lemma distinct_names: "distinct (map fst MiLightRGBW_commands)"
  by (simp add: MiLightRGBW_commands_def)

lemma struct_pack_BBB_Inr:
  assumes "struct_pack_BBB a b c = Inr p"
  shows "p = [word_of_int a, word_of_int b, word_of_int c]
         \<and> 0 \<le> a \<and> a \<le> 255 \<and> 0 \<le> b \<and> b \<le> 255 \<and> 0 \<le> c \<and> c \<le> 255"
  using assms by (auto simp add: struct_pack_BBB_def pack_B_def split: if_splits)

lemma build_command_Inr:
  assumes "fst (build_command name v s) = Inr p"
  shows "\<exists>opcode n. map_of (commands s) name = Some opcode \<and> py_int v = Inr n
           \<and> struct_pack_BBB opcode n (suffix s) = Inr p"
  using assms by (auto simp add: build_command_def split: option.splits sum.splits)

lemma is_digit_not_space: "is_digit c \<Longrightarrow> \<not> is_space c"
  by (auto simp add: is_digit_def is_space_def)

lemma is_digit_not_sign: "is_digit c \<Longrightarrow> c \<noteq> CHR ''-'' \<and> c \<noteq> CHR ''+''"
  by (auto simp add: is_digit_def)

lemma strip_digits:
  assumes "ds \<noteq> []" and "list_all is_digit ds"
  shows "strip ds = ds"
proof -
  from assms have "\<not> is_space (hd ds)"
    by (cases ds) (simp_all add: is_digit_not_space)
  with assms(1) have front: "dropWhile is_space ds = ds"
    by (cases ds) simp_all
  from assms have "is_digit (last ds)"
    by (simp add: list_all_iff)
  then have "\<not> is_space (hd (rev ds))"
    using assms(1) by (simp add: hd_rev is_digit_not_space)
  with assms(1) have "dropWhile is_space (rev ds) = rev ds"
    by (cases "rev ds") simp_all
  with front show ?thesis
    by (simp add: strip_def)
qed

lemma int_of_str_digits:
  assumes "ds \<noteq> []" and "list_all is_digit ds"
  shows "int_of_str ds = Inr (digits_val ds)"
proof -
  from assms have "is_digit (hd ds)"
    by (cases ds) simp_all
  then have "hd ds \<noteq> CHR ''-'' \<and> hd ds \<noteq> CHR ''+''"
    by (rule is_digit_not_sign)
  then show ?thesis
    using assms by (simp add: int_of_str_def strip_digits)
qed

lemma set_strip: "set (strip str) \<subseteq> set str"
proof -
  have "set (strip str) \<subseteq> set (rev (dropWhile is_space str))"
    unfolding strip_def set_rev by (auto dest: set_dropWhileD)
  also have "\<dots> \<subseteq> set str"
    by (auto dest: set_dropWhileD)
  finally show ?thesis .
qed

lemma int_of_str_no_digit:
  assumes "\<not> list_ex is_digit str"
  shows "int_of_str str = Inl (ValueError str)"
proof -
  define t where "t = strip str"
  define ds where "ds = (if t \<noteq> [] \<and> (hd t = CHR ''-'' \<or> hd t = CHR ''+'') then tl t else t)"
  have "set ds \<subseteq> set t"
    by (cases t) (auto simp add: ds_def)
  with set_strip [of str] have sub: "set ds \<subseteq> set str"
    by (auto simp add: t_def)
  have "\<not> (ds \<noteq> [] \<and> list_all is_digit ds)"
  proof
    assume a: "ds \<noteq> [] \<and> list_all is_digit ds"
    then have "hd ds \<in> set ds" "is_digit (hd ds)"
      by (cases ds; simp)+
    with sub assms show False
      by (auto simp add: list_ex_iff)
  qed
  then show ?thesis
    by (simp add: int_of_str_def Let_def t_def [symmetric] ds_def [symmetric])
qed

lemma int_of_str_160: "int_of_str ''160'' = Inr 160"
  by (simp add: int_of_str_def strip_def is_space_def is_digit_def digits_val_def digit_val_def)

lemma int_of_str_padded: "int_of_str '' 27 '' = Inr 27"
  by (simp add: int_of_str_def strip_def is_space_def is_digit_def digits_val_def digit_val_def)

text \<open>
  The tester passes the piece after the colon as it is, a string: \<open>"rgb:160"\<close>
  becomes \<open>simple("rgb", "160")\<close>.
\<close>

lemma split_colon_rgb_160: "split_colon ''rgb:160'' = [''rgb'', ''160'']"
  by simp

lemma test_passes_string:
  "test [''rgb:160''] s =
     (case simple ''rgb'' (PyStr ''160'') (log_debug ''Command: rgb:160'' s) of
        (Inl e, s2) \<Rightarrow> (Inl e, s2)
      | (Inr u, s2) \<Rightarrow> (Inr (), s2))"
  by (simp add: split_colon_rgb_160 Let_def del: split_colon.simps split: prod.split sum.split)

section \<open>Claims\<close>

text \<open>
  C1. For every command name of the table and every value \<open>v\<close> with
  \<open>0 \<le> v \<le> 255\<close>, \<open>build_command\<close> returns a packet of exactly three bytes:
  the opcode of the name, \<open>v mod 256\<close>, and 85 (0x55).
\<close>

theorem build_command_byte_range:
  assumes "class_attrs_intact s"
    and "map_of (commands s) name = Some opcode"
    and "0 \<le> v" and "v \<le> 255"
  shows "\<exists>p. build_command name (PyInt v) s = (Inr p, s)
           \<and> length p = 3 \<and> map uint p = [opcode, v mod 256, 85]"
proof -
  from assms(1,2) have rng: "0 \<le> opcode \<and> opcode \<le> 255"
    by (simp add: class_attrs_intact_def commands_opcode_range)
  have "build_command name (PyInt v) s =
      (Inr [word_of_int opcode, word_of_int v, word_of_int 85], s)"
    using assms by (simp add: build_command_in_range)
  moreover have "map uint [word_of_int opcode, word_of_int v, word_of_int 85 :: byte]
      = [opcode, v mod 256, 85]"
    using rng \<open>0 \<le> v\<close> \<open>v \<le> 255\<close> by (simp add: uint_byte_of_int)
  ultimately show ?thesis
    by simp
qed

theorem build_command_byte_range_witness:
  "class_attrs_intact init_default
   \<and> map_of (commands init_default) ''rgb'' = Some 64
   \<and> (0::int) \<le> 160 \<and> (160::int) \<le> 255
   \<and> (\<exists>p. build_command ''rgb'' (PyInt 160) init_default = (Inr p, init_default)
          \<and> length p = 3 \<and> map uint p = [64, 160 mod 256, 85])"
proof -
  have h1: "class_attrs_intact init_default"
    by (simp add: init_default_def class_attrs_intact_init)
  have h2: "map_of (commands init_default) ''rgb'' = Some 64"
    by (simp add: init_default_def commands_init MiLightRGBW_commands_def)
  have h3: "(0::int) \<le> 160" and h4: "(160::int) \<le> 255"
    by simp_all
  from build_command_byte_range [OF h1 h2 h3 h4] h1 h2 show ?thesis
    by simp
qed

text \<open>
  C2. The table of a client maps exactly the twenty names to the listed opcodes
  (all_off 65, all_on 66, disco_slower 67, disco_faster 68, group1..4_on 69, 71,
  73, 75, group1..4_off 70, 72, 74, 76, disco 77, all_white 194, group1..4_white
  197, 199, 201, 203, brightness 78, rgb 64); and \<open>build_command("all_on")\<close> is
  [66, 0, 85], \<open>build_command("rgb", 160)\<close> is [64, 160, 85],
  \<open>build_command("brightness", 27)\<close> is [78, 27, 85]. The default of \<open>value\<close>
  is the integer 0.
\<close>

theorem commands_table:
  "fst ` set (commands (init address port loglevel net)) =
     {''all_off'', ''all_on'', ''disco_slower'', ''disco_faster'',
      ''group1_on'', ''group2_on'', ''group3_on'', ''group4_on'',
      ''group1_off'', ''group2_off'', ''group3_off'', ''group4_off'',
      ''disco'', ''all_white'',
      ''group1_white'', ''group2_white'', ''group3_white'', ''group4_white'',
      ''brightness'', ''rgb''}
   \<and> length (commands (init address port loglevel net)) = 20
   \<and> map (map_of (commands (init address port loglevel net)))
        [''all_off'', ''all_on'', ''disco_slower'', ''disco_faster'',
         ''group1_on'', ''group2_on'', ''group3_on'', ''group4_on'',
         ''group1_off'', ''group2_off'', ''group3_off'', ''group4_off'',
         ''disco'', ''all_white'',
         ''group1_white'', ''group2_white'', ''group3_white'', ''group4_white'',
         ''brightness'', ''rgb'']
      = map Some [65, 66, 67, 68, 69, 71, 73, 75, 70, 72, 74, 76, 77, 194,
                  197, 199, 201, 203, 78, 64]
   \<and> fst (build_command ''all_on'' (PyInt 0) (init address port loglevel net)) = Inr [66, 0, 85]
   \<and> fst (build_command ''rgb'' (PyInt 160) (init address port loglevel net)) = Inr [64, 160, 85]
   \<and> fst (build_command ''brightness'' (PyInt 27) (init address port loglevel net)) = Inr [78, 27, 85]"
proof -
  let ?s = "init address port loglevel net"
  have tab: "commands ?s = MiLightRGBW_commands"
    by (rule commands_init)
  have names: "fst ` set MiLightRGBW_commands =
     {''all_off'', ''all_on'', ''disco_slower'', ''disco_faster'',
      ''group1_on'', ''group2_on'', ''group3_on'', ''group4_on'',
      ''group1_off'', ''group2_off'', ''group3_off'', ''group4_off'',
      ''disco'', ''all_white'',
      ''group1_white'', ''group2_white'', ''group3_white'', ''group4_white'',
      ''brightness'', ''rgb''}"
    unfolding MiLightRGBW_commands_def by (simp add: insert_commute)
  have len: "length MiLightRGBW_commands = 20"
    by (simp add: MiLightRGBW_commands_def)
  have lookups: "map (map_of MiLightRGBW_commands)
        [''all_off'', ''all_on'', ''disco_slower'', ''disco_faster'',
         ''group1_on'', ''group2_on'', ''group3_on'', ''group4_on'',
         ''group1_off'', ''group2_off'', ''group3_off'', ''group4_off'',
         ''disco'', ''all_white'',
         ''group1_white'', ''group2_white'', ''group3_white'', ''group4_white'',
         ''brightness'', ''rgb'']
      = map Some [65, 66, 67, 68, 69, 71, 73, 75, 70, 72, 74, 76, 77, 194,
                  197, 199, 201, 203, 78, 64]"
    by (simp add: MiLightRGBW_commands_def)
  have b1: "fst (build_command ''all_on'' (PyInt 0) ?s) = Inr [66, 0, 85]"
    by (simp add: build_command_def init_def MiLightRGBW_commands_def MiLightRGBW_suffix_def
        struct_pack_BBB_def pack_B_def)
  have b2: "fst (build_command ''rgb'' (PyInt 160) ?s) = Inr [64, 160, 85]"
    by (simp add: build_command_def init_def MiLightRGBW_commands_def MiLightRGBW_suffix_def
        struct_pack_BBB_def pack_B_def)
  have b3: "fst (build_command ''brightness'' (PyInt 27) ?s) = Inr [78, 27, 85]"
    by (simp add: build_command_def init_def MiLightRGBW_commands_def MiLightRGBW_suffix_def
        struct_pack_BBB_def pack_B_def)
  show ?thesis
    unfolding tab using names len lookups b1 b2 b3 by (intro conjI)
qed

text \<open>
  C3, as the code has it. The claim says that a value outside 0..255 is truncated
  to \<open>v mod 256\<close> and never rejected. The packer rejects it: at
  \<open>build_command("rgb", 256)\<close> the name is in the table and the call raises
  \<open>struct.error\<close>.
\<close>

theorem build_command_out_of_range_counterexample:
  "map_of (commands init_default) ''rgb'' = Some 64
   \<and> build_command ''rgb'' (PyInt 256) init_default = (Inl StructError, init_default)"
  by (simp add: commands_init_default build_command_init_default lookup_rgb
      struct_pack_BBB_def pack_B_def)

text \<open>
  C3, amended. For every command name of the table and every integer \<open>v\<close>:
  if \<open>0 \<le> v \<le> 255\<close> then \<open>build_command\<close> returns the three bytes opcode,
  \<open>v\<close>, 85; if \<open>v\<close> is negative or above 255 it raises \<open>struct.error\<close> and
  returns no packet. Nothing is truncated.
\<close>

theorem build_command_value_range:
  assumes "class_attrs_intact s"
    and "map_of (commands s) name = Some opcode"
  shows "(0 \<le> v \<and> v \<le> 255 \<longrightarrow>
            (\<exists>p. build_command name (PyInt v) s = (Inr p, s) \<and> map uint p = [opcode, v, 85]))
         \<and> (v < 0 \<or> 255 < v \<longrightarrow> build_command name (PyInt v) s = (Inl StructError, s))"
proof (intro conjI impI)
  from assms have rng: "0 \<le> opcode \<and> opcode \<le> 255"
    by (simp add: class_attrs_intact_def commands_opcode_range)
  assume v: "0 \<le> v \<and> v \<le> 255"
  then have "build_command name (PyInt v) s =
      (Inr [word_of_int opcode, word_of_int v, word_of_int 85], s)"
    using assms by (simp add: build_command_in_range)
  moreover have "map uint [word_of_int opcode, word_of_int v, word_of_int 85 :: byte]
      = [opcode, v, 85]"
    using rng v by (simp add: uint_byte_of_int)
  ultimately show "\<exists>p. build_command name (PyInt v) s = (Inr p, s)
      \<and> map uint p = [opcode, v, 85]"
    by simp
next
  assume "v < 0 \<or> 255 < v"
  then show "build_command name (PyInt v) s = (Inl StructError, s)"
    using assms build_command_out_of_range [of s name opcode "PyInt v" v] by simp
qed

theorem build_command_value_range_witness:
  "class_attrs_intact init_default
   \<and> map_of (commands init_default) ''brightness'' = Some 78
   \<and> (\<exists>p. build_command ''brightness'' (PyInt 27) init_default = (Inr p, init_default)
          \<and> map uint p = [78, 27, 85])
   \<and> build_command ''brightness'' (PyInt 283) init_default = (Inl StructError, init_default)
   \<and> build_command ''brightness'' (PyInt (- 1)) init_default = (Inl StructError, init_default)"
proof -
  have h1: "class_attrs_intact init_default"
    by (rule class_attrs_intact_init_default)
  have h2: "map_of (commands init_default) ''brightness'' = Some 78"
    by (simp add: commands_init_default lookup_brightness)
  from build_command_value_range [OF h1 h2, of 27]
    build_command_value_range [OF h1 h2, of 283]
    build_command_value_range [OF h1 h2, of "- 1"] h1 h2
  show ?thesis
    by simp
qed

text \<open>
  C4. \<open>build_command\<close> raises KeyError (the specification's UnknownCommand)
  exactly when the name is no key of the table: for a name that is no key it
  raises KeyError with that name, whatever the value, and changes nothing; for a
  key it never raises KeyError.
\<close>

theorem build_command_KeyError_iff:
  "(name \<notin> fst ` set (commands s) \<longrightarrow> build_command name v s = (Inl (KeyError name), s))
   \<and> (name \<in> fst ` set (commands s) \<longrightarrow> (\<forall>k. fst (build_command name v s) \<noteq> Inl (KeyError k)))"
proof (intro conjI impI allI)
  assume "name \<notin> fst ` set (commands s)"
  then have "map_of (commands s) name = None"
    by (simp add: map_of_eq_None_iff)
  then show "build_command name v s = (Inl (KeyError name), s)"
    by (simp add: build_command_def)
next
  fix k
  assume "name \<in> fst ` set (commands s)"
  then obtain opcode where "map_of (commands s) name = Some opcode"
    by (metis map_of_eq_None_iff not_Some_eq)
  then show "fst (build_command name v s) \<noteq> Inl (KeyError k)"
    using py_int_not_KeyError [of v k] struct_pack_BBB_not_KeyError [of opcode _ "suffix s" k]
    by (auto simp add: build_command_def split: sum.splits)
qed

theorem build_command_KeyError_iff_witness:
  "''unknown_command_xyz'' \<notin> fst ` set (commands init_default)
   \<and> build_command ''unknown_command_xyz'' (PyInt 0) init_default
       = (Inl (KeyError ''unknown_command_xyz''), init_default)
   \<and> ''all_on'' \<in> fst ` set (commands init_default)
   \<and> fst (build_command ''all_on'' (PyInt 0) init_default) \<noteq> Inl (KeyError ''all_on'')"
proof -
  have h1: "''unknown_command_xyz'' \<notin> fst ` set (commands init_default)"
    by (simp add: commands_init_default MiLightRGBW_commands_def)
  have h2: "''all_on'' \<in> fst ` set (commands init_default)"
    by (simp add: commands_init_default MiLightRGBW_commands_def)
  from build_command_KeyError_iff [of "''unknown_command_xyz''" init_default "PyInt 0"]
    build_command_KeyError_iff [of "''all_on''" init_default "PyInt 0"] h1 h2
  show ?thesis
    by blast
qed

text \<open>
  C5, as the code has it. The claim says that \<open>send_command\<close> sleeps the pacing
  interval whether the transmission succeeded or failed. When \<open>sock.sendto\<close>
  raises, the exception leaves \<open>send_command\<close> at once: the call ends with the
  error, and the trace holds no sleep (and no datagram).
\<close>

theorem send_command_raises_counterexample:
  "sendto_raises (init ''10.0.88.50'' 8899 30 [True]) = [True]
   \<and> send_command [66, 0, 85] (init ''10.0.88.50'' 8899 30 [True])
       = (Inl SocketError, init ''10.0.88.50'' 8899 30 [])
   \<and> trace (init ''10.0.88.50'' 8899 30 []) = []"
  by (simp add: send_command_raises sendto_will_raise_def init_fields debug_enabled_def)

text \<open>
  C5, amended. A call of \<open>send_command\<close> whose \<open>sendto\<close> does not raise hands
  exactly one datagram, the packet, to the configured endpoint and then sleeps
  100 milliseconds before it returns. A call whose \<open>sendto\<close> raises ends with
  that error, without a datagram and without the sleep. Hence N calls of
  \<open>simple\<close> in sequence, whose packets all build and whose \<open>sendto\<close> calls do
  not raise, issue exactly N datagrams, in order, each followed by the sleep.
\<close>

theorem send_command_pacing:
  "(\<not> sendto_will_raise s \<longrightarrow>
      (\<exists>s'. send_command cmd s = (Inr (), s')
         \<and> io_events (trace s') = io_events (trace s)
              @ [Sendto cmd (bridge_address s) (bridge_port s), Sleep 100]))
   \<and> (sendto_will_raise s \<longrightarrow>
      (\<exists>s'. send_command cmd s = (Inl SocketError, s')
         \<and> io_events (trace s') = io_events (trace s)))
   \<and> (map (\<lambda>(c, v). fst (build_command c v s)) cs = map Inr ps
        \<and> True \<notin> set (take (length cs) (sendto_raises s)) \<longrightarrow>
      (\<exists>s'. simple_seq cs s = (Inr (), s')
         \<and> io_events (trace s') = io_events (trace s)
              @ concat (map (\<lambda>p. [Sendto p (bridge_address s) (bridge_port s), Sleep 100]) ps)
         \<and> length (filter is_Sendto (trace s'))
              = length (filter is_Sendto (trace s)) + length cs))"
proof (intro conjI impI)
  assume "\<not> sendto_will_raise s"
  then show "\<exists>s'. send_command cmd s = (Inr (), s')
         \<and> io_events (trace s') = io_events (trace s)
              @ [Sendto cmd (bridge_address s) (bridge_port s), Sleep 100]"
    by (simp add: send_command_ok io_events_def)
next
  assume "sendto_will_raise s"
  then show "\<exists>s'. send_command cmd s = (Inl SocketError, s')
         \<and> io_events (trace s') = io_events (trace s)"
    by (simp add: send_command_raises io_events_def)
next
  assume a: "map (\<lambda>(c, v). fst (build_command c v s)) cs = map Inr ps
        \<and> True \<notin> set (take (length cs) (sendto_raises s))"
  then have len: "length cs = length ps"
    by (metis length_map)
  from a simple_seq_ok [of s cs ps] obtain s' where
    seq: "simple_seq cs s = (Inr (), s')"
    and tr: "io_events (trace s') = io_events (trace s)
        @ concat (map (\<lambda>p. [Sendto p (bridge_address s) (bridge_port s), Sleep 100]) ps)"
    by blast
  have "length (filter is_Sendto (trace s')) = length (filter is_Sendto (io_events (trace s')))"
    by (simp add: count_Sendto_io_events)
  also have "\<dots> = length (filter is_Sendto (io_events (trace s))) + length ps"
    by (simp add: tr count_Sendto_paced)
  also have "\<dots> = length (filter is_Sendto (trace s)) + length cs"
    by (simp add: count_Sendto_io_events len)
  finally show "\<exists>s'. simple_seq cs s = (Inr (), s')
         \<and> io_events (trace s') = io_events (trace s)
              @ concat (map (\<lambda>p. [Sendto p (bridge_address s) (bridge_port s), Sleep 100]) ps)
         \<and> length (filter is_Sendto (trace s'))
              = length (filter is_Sendto (trace s)) + length cs"
    using seq tr by blast
qed

theorem send_command_pacing_witness:
  "\<not> sendto_will_raise (init ''10.0.88.50'' 8899 30 [])
   \<and> (\<exists>s'. send_command [66, 0, 85] (init ''10.0.88.50'' 8899 30 []) = (Inr (), s')
          \<and> io_events (trace s') = [Sendto [66, 0, 85] ''10.0.88.50'' 8899, Sleep 100])
   \<and> sendto_will_raise (init ''10.0.88.50'' 8899 30 [True])
   \<and> (\<exists>s'. send_command [66, 0, 85] (init ''10.0.88.50'' 8899 30 [True]) = (Inl SocketError, s')
          \<and> io_events (trace s') = [])
   \<and> map (\<lambda>(c, v). fst (build_command c v (init ''10.0.88.50'' 8899 30 [])))
        [(''all_on'', PyInt 0), (''rgb'', PyInt 160), (''brightness'', PyInt 27)]
       = map Inr [[66, 0, 85], [64, 160, 85], [78, 27, 85]]
   \<and> True \<notin> set (take 3 (sendto_raises (init ''10.0.88.50'' 8899 30 [])))
   \<and> (\<exists>s'. simple_seq [(''all_on'', PyInt 0), (''rgb'', PyInt 160), (''brightness'', PyInt 27)]
             (init ''10.0.88.50'' 8899 30 []) = (Inr (), s')
          \<and> io_events (trace s') =
               [Sendto [66, 0, 85] ''10.0.88.50'' 8899, Sleep 100,
                Sendto [64, 160, 85] ''10.0.88.50'' 8899, Sleep 100,
                Sendto [78, 27, 85] ''10.0.88.50'' 8899, Sleep 100]
          \<and> length (filter is_Sendto (trace s')) = 3)"
proof -
  let ?s = "init ''10.0.88.50'' 8899 30 []"
  let ?f = "init ''10.0.88.50'' 8899 30 [True]"
  let ?cs = "[(''all_on'', PyInt 0), (''rgb'', PyInt 160), (''brightness'', PyInt 27)]"
  let ?ps = "[[66, 0, 85], [64, 160, 85], [78, 27, 85 :: byte]]"
  have h1: "\<not> sendto_will_raise ?s"
    by (simp add: sendto_will_raise_def init_fields)
  have h2: "sendto_will_raise ?f"
    by (simp add: sendto_will_raise_def init_fields)
  have h3: "map (\<lambda>(c, v). fst (build_command c v ?s)) ?cs = map Inr ?ps"
    by (simp add: build_command_def init_fields lookup_all_on lookup_rgb lookup_brightness
        struct_pack_BBB_def pack_B_def)
  have h4: "True \<notin> set (take 3 (sendto_raises ?s))"
    by (simp add: init_fields)
  have h4': "True \<notin> set (take (length ?cs) (sendto_raises ?s))"
    by (simp add: init_fields)
  have tr: "io_events (trace ?s) = []" "io_events (trace ?f) = []"
    "filter is_Sendto (trace ?s) = []"
    by (simp_all add: init_fields io_events_def)
  have ep: "bridge_address ?s = ''10.0.88.50''" "bridge_port ?s = 8899"
    by (simp_all add: init_fields)
  note seq = send_command_pacing [of ?s "[66, 0, 85]" ?cs ?ps]
  note one = send_command_pacing [of ?f "[66, 0, 85]" "[]" "[]"]
  have c1: "\<exists>s'. send_command [66, 0, 85] ?s = (Inr (), s')
      \<and> io_events (trace s') = [Sendto [66, 0, 85] ''10.0.88.50'' 8899, Sleep 100]"
    using conjunct1 [OF seq, THEN mp, OF h1] by (simp add: tr ep)
  have c2: "\<exists>s'. send_command [66, 0, 85] ?f = (Inl SocketError, s')
      \<and> io_events (trace s') = []"
    using conjunct1 [OF conjunct2 [OF one], THEN mp, OF h2] by (simp add: tr)
  have len: "length ?cs = 3"
    by simp
  have c3: "\<exists>s'. simple_seq ?cs ?s = (Inr (), s')
      \<and> io_events (trace s') =
           [Sendto [66, 0, 85] ''10.0.88.50'' 8899, Sleep 100,
            Sendto [64, 160, 85] ''10.0.88.50'' 8899, Sleep 100,
            Sendto [78, 27, 85] ''10.0.88.50'' 8899, Sleep 100]
      \<and> length (filter is_Sendto (trace s')) = 3"
    using conjunct2 [OF conjunct2 [OF seq], THEN mp, OF conjI [OF h3 h4']]
    unfolding len tr ep by simp
  show ?thesis
    using h1 h2 h3 h4 c1 c2 c3 by (intro conjI)
qed

text \<open>
  C6. \<open>simple\<close> is the composition of the builder and the sender: an error of
  \<open>build_command\<close> is the outcome, with nothing sent and no sleep; otherwise
  the outcome is that of \<open>send_command\<close> on the packet built.
\<close>

theorem simple_is_build_then_send:
  "simple command v s = sendSimple_spec command v s
   \<and> simple command v s =
       (case fst (build_command command v s) of
          Inl e \<Rightarrow> (Inl e, s)
        | Inr cmd \<Rightarrow> send_command cmd s)"
proof
  obtain r where r: "build_command command v s = (r, s)"
    using build_command_pair by blast
  show "simple command v s = sendSimple_spec command v s"
    by (cases r) (simp_all add: simple_def sendSimple_spec_def and_then_def r)
  show "simple command v s =
       (case fst (build_command command v s) of
          Inl e \<Rightarrow> (Inl e, s)
        | Inr cmd \<Rightarrow> send_command cmd s)"
    by (rule simple_eq)
qed

text \<open>
  C7. Round trip. The opcodes of the table are pairwise distinct, and every
  packet that \<open>build_command\<close> returns for a name decodes into an opcode, a
  value and the terminator 85 such that the reverse lookup of the opcode gives
  the name back and building that name with the decoded value gives the same
  three bytes.
\<close>

theorem packet_round_trip:
  assumes "class_attrs_intact s"
    and "fst (build_command name v s) = Inr p"
  shows "distinct (map snd (commands s))
         \<and> (\<exists>opcode n. struct_unpack_BBB p = Some (opcode, n, 85)
               \<and> name_of_opcode (commands s) opcode = Some name
               \<and> fst (build_command name (PyInt n) s) = Inr p)"
proof -
  from assms(1) have tab: "commands s = MiLightRGBW_commands" and suf: "suffix s = 85"
    by (simp_all add: class_attrs_intact_def MiLightRGBW_suffix_def)
  from build_command_Inr [OF assms(2)] obtain opcode n where
    look: "map_of (commands s) name = Some opcode" and conv: "py_int v = Inr n"
    and pack: "struct_pack_BBB opcode n (suffix s) = Inr p"
    by blast
  from struct_pack_BBB_Inr [OF pack] suf have
    p: "p = [word_of_int opcode, word_of_int n, word_of_int 85]"
    and rng: "0 \<le> opcode" "opcode \<le> 255" "0 \<le> n" "n \<le> 255"
    by simp_all
  have dist: "distinct (map snd (commands s))"
    by (simp add: tab distinct_opcodes)
  have "struct_unpack_BBB p = Some (opcode, n, 85)"
    using rng by (simp add: p struct_unpack_BBB_def uint_byte_of_int)
  moreover have "name_of_opcode (commands s) opcode = Some name"
    using dist look by (intro name_of_opcode_inverse map_of_SomeD)
  moreover have "fst (build_command name (PyInt n) s) = Inr p"
    using look pack by (simp add: build_command_def)
  ultimately show ?thesis
    using dist by blast
qed

theorem packet_round_trip_witness:
  "class_attrs_intact init_default
   \<and> fst (build_command ''rgb'' (PyStr ''160'') init_default) = Inr [64, 160, 85]
   \<and> distinct (map snd (commands init_default))
   \<and> struct_unpack_BBB [64, 160, 85] = Some (64, 160, 85)
   \<and> name_of_opcode (commands init_default) 64 = Some ''rgb''
   \<and> fst (build_command ''rgb'' (PyInt 160) init_default) = Inr [64, 160, 85]"
proof -
  have h1: "class_attrs_intact init_default"
    by (rule class_attrs_intact_init_default)
  have h2: "fst (build_command ''rgb'' (PyStr ''160'') init_default) = Inr [64, 160, 85]"
    by (simp add: build_command_init_default lookup_rgb int_of_str_160
        struct_pack_BBB_def pack_B_def)
  have u: "struct_unpack_BBB [64, 160, 85] = Some (64, 160, 85)"
    by (simp add: struct_unpack_BBB_def)
  from packet_round_trip [OF h1 h2] h1 h2 u show ?thesis
    by auto
qed

text \<open>
  C8. \<open>build_command\<close> has no effect: it returns the state it was given, and
  its result depends on the table and the terminator only, not on the endpoint,
  the logger, the network or the trace. Construction sets the table, the
  terminator 85 and the endpoint, and no method changes them, so a call of
  \<open>build_command\<close> after any sequence of sends returns what it returned before.
\<close>

theorem client_config_immutable:
  "build_command command v s = (fst (build_command command v s), s)
   \<and> fst (build_command command v
          (s\<lparr>bridge_address := a, bridge_port := p, log_level := l,
             sendto_raises := n, trace := t\<rparr>))
       = fst (build_command command v s)
   \<and> client_config (init a p l n) = (MiLightRGBW_commands, 85, a, p)
   \<and> client_config (snd (build_command command v s)) = client_config s
   \<and> client_config (snd (send_command cmd s)) = client_config s
   \<and> client_config (snd (simple command v s)) = client_config s
   \<and> client_config (snd (simple_seq cs s)) = client_config s
   \<and> fst (build_command command v (snd (simple_seq cs s))) = fst (build_command command v s)"
proof (intro conjI)
  show "build_command command v s = (fst (build_command command v s), s)"
    by (rule build_command_pair)
  show "fst (build_command command v
          (s\<lparr>bridge_address := a, bridge_port := p, log_level := l,
             sendto_raises := n, trace := t\<rparr>))
       = fst (build_command command v s)"
    by (rule fst_build_command_cong) simp_all
  show "client_config (init a p l n) = (MiLightRGBW_commands, 85, a, p)"
    by (simp add: client_config_def init_fields)
  show "client_config (snd (build_command command v s)) = client_config s"
    by (simp add: snd_build_command)
  show "client_config (snd (send_command cmd s)) = client_config s"
    by (rule client_config_send_command)
  show "client_config (snd (simple command v s)) = client_config s"
    by (rule client_config_simple)
  show "client_config (snd (simple_seq cs s)) = client_config s"
    by (rule client_config_simple_seq)
  have "client_config (snd (simple_seq cs s)) = client_config s"
    by (rule client_config_simple_seq)
  then show "fst (build_command command v (snd (simple_seq cs s)))
      = fst (build_command command v s)"
    by (intro fst_build_command_cong) (simp_all add: client_config_def)
qed

text \<open>
  C9. \<open>simple\<close> with a name that is no key of the table raises KeyError before
  any socket call: the state is the one before the call, so no datagram, no
  sleep, no log line, and the network has not been asked.
\<close>

theorem simple_unknown_command:
  assumes "name \<notin> fst ` set (commands s)"
  shows "simple name v s = (Inl (KeyError name), s)"
proof -
  from assms have "map_of (commands s) name = None"
    by (simp add: map_of_eq_None_iff)
  then show ?thesis
    by (simp add: simple_def build_command_def)
qed

theorem simple_unknown_command_witness:
  "''unknown_command_xyz'' \<notin> fst ` set (commands (init ''10.0.88.50'' 8899 10 [True]))
   \<and> simple ''unknown_command_xyz'' (PyInt 0) (init ''10.0.88.50'' 8899 10 [True])
       = (Inl (KeyError ''unknown_command_xyz''), init ''10.0.88.50'' 8899 10 [True])
   \<and> trace (init ''10.0.88.50'' 8899 10 [True]) = []"
proof -
  have h: "''unknown_command_xyz'' \<notin> fst ` set (commands (init ''10.0.88.50'' 8899 10 [True]))"
    by (simp add: init_fields MiLightRGBW_commands_def)
  from simple_unknown_command [OF h, of "PyInt 0"] h show ?thesis
    by (simp add: init_fields)
qed

text \<open>
  C10. \<open>build_command\<close> converts the value with \<open>int()\<close> before packing. For
  a name of the table: a string of decimal digits converts to its decimal value
  and builds what that integer builds; more generally whatever \<open>int()\<close>
  accepts builds what the converted integer builds; and when \<open>int()\<close> raises
  (a string without a digit raises ValueError, None raises TypeError) that
  error is the outcome and no packet is returned.
\<close>

theorem build_command_converts_value:
  assumes "map_of (commands s) name = Some opcode"
  shows "(ds \<noteq> [] \<and> list_all is_digit ds \<longrightarrow>
            py_int (PyStr ds) = Inr (digits_val ds)
            \<and> build_command name (PyStr ds) s = build_command name (PyInt (digits_val ds)) s)
         \<and> (py_int v = Inr n \<longrightarrow> build_command name v s = build_command name (PyInt n) s)
         \<and> (py_int v = Inl e \<longrightarrow> build_command name v s = (Inl e, s))
         \<and> (\<not> list_ex is_digit str \<longrightarrow>
               build_command name (PyStr str) s = (Inl (ValueError str), s))
         \<and> build_command name PyNone s = (Inl TypeError, s)"
proof (intro conjI impI)
  assume d: "ds \<noteq> [] \<and> list_all is_digit ds"
  then show "py_int (PyStr ds) = Inr (digits_val ds)"
    by (simp add: int_of_str_digits)
  then show "build_command name (PyStr ds) s = build_command name (PyInt (digits_val ds)) s"
    using assms by (simp add: build_command_def)
next
  assume "py_int v = Inr n"
  then show "build_command name v s = build_command name (PyInt n) s"
    using assms by (simp add: build_command_def)
next
  assume "py_int v = Inl e"
  then show "build_command name v s = (Inl e, s)"
    using assms by (simp add: build_command_def)
next
  assume "\<not> list_ex is_digit str"
  then have "int_of_str str = Inl (ValueError str)"
    by (rule int_of_str_no_digit)
  then show "build_command name (PyStr str) s = (Inl (ValueError str), s)"
    using assms by (simp add: build_command_def)
next
  show "build_command name PyNone s = (Inl TypeError, s)"
    using assms by (simp add: build_command_def)
qed

theorem build_command_converts_value_witness:
  "map_of (commands init_default) ''rgb'' = Some 64
   \<and> ''160'' \<noteq> [] \<and> list_all is_digit ''160''
   \<and> py_int (PyStr ''160'') = Inr 160
   \<and> build_command ''rgb'' (PyStr ''160'') init_default
       = build_command ''rgb'' (PyInt 160) init_default
   \<and> py_int (PyStr '' 27 '') = Inr 27
   \<and> build_command ''rgb'' (PyStr '' 27 '') init_default
       = build_command ''rgb'' (PyInt 27) init_default
   \<and> py_int PyNone = Inl TypeError
   \<and> build_command ''rgb'' PyNone init_default = (Inl TypeError, init_default)
   \<and> \<not> list_ex is_digit ''abc''
   \<and> build_command ''rgb'' (PyStr ''abc'') init_default
       = (Inl (ValueError ''abc''), init_default)"
proof -
  have h: "map_of (commands init_default) ''rgb'' = Some 64"
    by (simp add: commands_init_default lookup_rgb)
  have d: "''160'' \<noteq> [] \<and> list_all is_digit ''160''"
    by (simp add: is_digit_def)
  have dv: "digits_val ''160'' = 160"
    by (simp add: digits_val_def digit_val_def)
  have p: "py_int (PyStr '' 27 '') = Inr 27"
    by (simp add: int_of_str_padded)
  have n: "py_int PyNone = Inl TypeError"
    by simp
  have a: "\<not> list_ex is_digit ''abc''"
    by (simp add: is_digit_def)
  note t1 = build_command_converts_value [OF h, of "''160''" "PyStr '' 27 ''" 27 TypeError "''abc''"]
  note t2 = build_command_converts_value [OF h, of "''160''" PyNone 0 TypeError "''abc''"]
  have c1: "py_int (PyStr ''160'') = Inr 160
      \<and> build_command ''rgb'' (PyStr ''160'') init_default
          = build_command ''rgb'' (PyInt 160) init_default"
    using conjunct1 [OF t1, THEN mp, OF d] by (simp only: dv)
  have c2: "build_command ''rgb'' (PyStr '' 27 '') init_default
      = build_command ''rgb'' (PyInt 27) init_default"
    using conjunct1 [OF conjunct2 [OF t1], THEN mp, OF p] .
  have c3: "build_command ''rgb'' PyNone init_default = (Inl TypeError, init_default)"
    using conjunct1 [OF conjunct2 [OF conjunct2 [OF t2]], THEN mp, OF n] .
  have c4: "build_command ''rgb'' (PyStr ''abc'') init_default
      = (Inl (ValueError ''abc''), init_default)"
    using conjunct1 [OF conjunct2 [OF conjunct2 [OF conjunct2 [OF t1]]], THEN mp, OF a] .
  show ?thesis
    using h d c1 p c2 n c3 a c4 by (intro conjI) simp_all
qed

end
